theory Spec2Isabelle
  imports Complex_Main
begin

section \<open>Conventions of the embedding\<close>

text \<open>
  The library computes with numpy arrays of 64-bit floats. A one-dimensional array is a
  \<open>real list\<close> here and arithmetic is exact: the theorems are about which formula is
  evaluated at which points, how many values come back and which calls raise; rounding,
  infinities and NaN are outside the model. Where numpy yields an infinity that decides
  the result (a division by zero inside \<open>goe_unfolded\<close>), the case is written out.
  A Python exception is a value of type \<open>error\<close>; a function that can raise returns
  \<open>error + 'a\<close>, \<open>Inl\<close> being the raise. A keyword argument with a default is an
  \<open>option\<close>: \<open>None\<close> is the argument left out, and the default of the source's
  signature is filled in by \<open>or_default\<close>.
\<close>

datatype error = ValueError | NotImplementedError | Exception | ZeroDivisionError | IndexError

definition or_default :: "'a option \<Rightarrow> 'a \<Rightarrow> 'a" where
  "or_default arg d = (case arg of None \<Rightarrow> d | Some v \<Rightarrow> v)"

text \<open>An elementwise numpy expression over an array that was obtained without a raise.\<close>

definition elementwise :: "(real \<Rightarrow> real) \<Rightarrow> error + real list \<Rightarrow> error + real list" where
  "elementwise f r = (case r of Inl e \<Rightarrow> Inl e | Inr s \<Rightarrow> Inr (map f s))"

text \<open>
  \<open>numpy.linspace(start, stop, num)\<close> is numpy's, not this repository's. It is written
  after numpy's implementation: a negative \<open>num\<close> raises ValueError; otherwise
  \<open>div = num - 1\<close>, \<open>step = (stop - start) / div\<close> and sample \<open>i\<close> is
  \<open>i * step + start\<close>, the single sample of \<open>num = 1\<close> being \<open>start\<close>.
\<close>

definition linspace :: "real \<Rightarrow> real \<Rightarrow> int \<Rightarrow> error + real list" where
  "linspace start stop num =
     (if num < 0 then Inl ValueError
      else let d = num - 1; step = (stop - start) / real_of_int d
           in Inr (map (\<lambda>i. if 0 < d then real i * step + start else start) [0..<nat num]))"

section \<open>ensemble.py\<close>

text \<open>
  \<open>s = spacings if spacings is not None else np.linspace(...)\<close>: the grid is generated
  only when no points are given.
\<close>

definition points_or :: "real list option \<Rightarrow> error + real list \<Rightarrow> error + real list" where
  "points_or given generated = (case given of Some s \<Rightarrow> Inr s | None \<Rightarrow> generated)"

subsection \<open>Poisson\<close>

definition Poisson_nnsd ::
  "(real \<times> real) option \<Rightarrow> int option \<Rightarrow> real list option \<Rightarrow> error + real list" where
  "Poisson_nnsd spacings_range n_points spacings =
     (let r = or_default spacings_range (0.0, 3.0); n = or_default n_points 1000;
          s = points_or spacings (linspace (fst r) (snd r) n)
      in elementwise (\<lambda>x. exp (- x)) s)"

text \<open>
  \<open>brody_dist\<close>, the function nested in \<open>Poisson.nnnsd\<close>. \<open>scipy.special.gamma\<close> is
  an external function and a parameter here. \<open>**\<close> with a real exponent is \<open>powr\<close>,
  which agrees with numpy on non-negative bases.
\<close>

definition brody_dist :: "(real \<Rightarrow> real) \<Rightarrow> real \<Rightarrow> real \<Rightarrow> real" where
  "brody_dist gamma x beta =
     (let b1 = beta + 1; alpha = gamma ((beta + 2) / b1) powr b1
      in b1 * alpha * (x powr beta) * exp (- alpha * (x powr b1)))"

definition Poisson_nnnsd ::
  "(real \<Rightarrow> real) \<Rightarrow> (real \<times> real) option \<Rightarrow> int option \<Rightarrow> real list option
     \<Rightarrow> error + real list" where
  "Poisson_nnnsd gamma spacings_range n_points spacings =
     (let r = or_default spacings_range (0.0, 4.0); n = or_default n_points 1000;
          s = points_or spacings (linspace (fst r) (snd r) n)
      in elementwise (\<lambda>x. brody_dist gamma x 0.6) s)"

definition Poisson_spectral_rigidity ::
  "real option \<Rightarrow> real option \<Rightarrow> int option \<Rightarrow> real list option \<Rightarrow> error + real list" where
  "Poisson_spectral_rigidity min_L max_L L_grid_size L =
     (let lo = or_default min_L 0.5; hi = or_default max_L 20; n = or_default L_grid_size 50;
          L' = points_or L (linspace lo hi n)
      in elementwise (\<lambda>x. x / 15 / 2) L')"

definition Poisson_level_variance ::
  "real option \<Rightarrow> real option \<Rightarrow> int option \<Rightarrow> real list option \<Rightarrow> error + real list" where
  "Poisson_level_variance min_L max_L L_grid_size L =
     (let lo = or_default min_L 0.5; hi = or_default max_L 20; n = or_default L_grid_size 50;
          L' = points_or L (linspace lo hi n)
      in elementwise (\<lambda>s. s / 2) L')"

subsection \<open>GOE\<close>

definition GOE_nnsd ::
  "(real \<times> real) option \<Rightarrow> int option \<Rightarrow> real list option \<Rightarrow> error + real list" where
  "GOE_nnsd spacings_range n_points spacings =
     (let r = or_default spacings_range (0.0, 3.0); n = or_default n_points 1000;
          s = points_or spacings (linspace (fst r) (snd r) n);
          p = pi
      in elementwise (\<lambda>x. ((p * x) / 2) * exp (- (p / 4) * x * x)) s)"

text \<open>
  The generated grid of \<open>GOE.nnnsd\<close> is divided by two (the source's comment: the mean
  next-nearest spacing is 2); explicit points are used as they are. The default range of
  this method's signature is \<open>(0.0, 3.0)\<close>.
\<close>

definition GOE_nnnsd ::
  "(real \<times> real) option \<Rightarrow> int option \<Rightarrow> real list option \<Rightarrow> error + real list" where
  "GOE_nnnsd spacings_range n_points spacings =
     (let r = or_default spacings_range (0.0, 3.0); n = or_default n_points 1000;
          s = points_or spacings (elementwise (\<lambda>x. x / 2) (linspace (fst r) (snd r) n));
          p = pi
      in elementwise
           (\<lambda>x. (2 ^ 18 / (3 ^ 6 * p ^ 3)) * (x ^ 4) * exp (- ((64 / (9 * p)) * (x * x)))) s)"

text \<open>\<open>np.euler_gamma\<close> is numpy's constant; it is the parameter \<open>y\<close> below.\<close>

definition GOE_spectral_rigidity ::
  "real \<Rightarrow> real option \<Rightarrow> real option \<Rightarrow> int option \<Rightarrow> real list option
     \<Rightarrow> error + real list" where
  "GOE_spectral_rigidity euler_gamma min_L max_L L_grid_size L =
     (let lo = or_default min_L 0.5; hi = or_default max_L 20; n = or_default L_grid_size 50;
          L' = points_or L (linspace lo hi n);
          p = pi; y = euler_gamma
      in elementwise (\<lambda>s. (1 / (p ^ 2)) * (ln (2 * p * s) + y - 5 / 4 - (p ^ 2) / 8)) L')"

definition GOE_level_variance ::
  "real \<Rightarrow> real option \<Rightarrow> real option \<Rightarrow> int option \<Rightarrow> real list option
     \<Rightarrow> error + real list" where
  "GOE_level_variance euler_gamma min_L max_L L_grid_size L =
     (let lo = or_default min_L 0.5; hi = or_default max_L 20; n = or_default L_grid_size 50;
          L' = points_or L (linspace lo hi n);
          p = pi
      in elementwise (\<lambda>s. (2 / (p ^ 2)) * (ln (2 * p * s) + euler_gamma + 1 - (p ^ 2) / 8)) L')"

subsection \<open>GUE\<close>

text \<open>\<open>GUE.nnsd\<close> takes \<open>n_points\<close> and generates its grid with the literal 10000.\<close>

definition GUE_nnsd ::
  "(real \<times> real) option \<Rightarrow> int option \<Rightarrow> real list option \<Rightarrow> error + real list" where
  "GUE_nnsd spacings_range n_points spacings =
     (let r = or_default spacings_range (0.0, 3.0); n = or_default n_points 1000;
          s = points_or spacings (linspace (fst r) (snd r) 10000);
          p = pi
      in elementwise (\<lambda>x. (32 / p ^ 2) * (x * x) * exp (- (4 * x * x) / p)) s)"

definition GUE_nnnsd ::
  "(real \<times> real) option \<Rightarrow> int option \<Rightarrow> real list option \<Rightarrow> error + real list" where
  "GUE_nnnsd spacings_range n_points spacings = Inl NotImplementedError"

definition GUE_spectral_rigidity ::
  "real \<Rightarrow> real option \<Rightarrow> real option \<Rightarrow> int option \<Rightarrow> real list option
     \<Rightarrow> error + real list" where
  "GUE_spectral_rigidity euler_gamma min_L max_L L_grid_size L =
     (let lo = or_default min_L 0.5; hi = or_default max_L 20; n = or_default L_grid_size 50;
          L' = points_or L (linspace lo hi n);
          p = pi
      in elementwise (\<lambda>s. (1 / (2 * (p ^ 2))) * (ln (2 * p * s) + euler_gamma - 5 / 4)) L')"

definition GUE_level_variance ::
  "real \<Rightarrow> real option \<Rightarrow> real option \<Rightarrow> int option \<Rightarrow> real list option
     \<Rightarrow> error + real list" where
  "GUE_level_variance euler_gamma min_L max_L L_grid_size L =
     (let lo = or_default min_L 0.5; hi = or_default max_L 20; n = or_default L_grid_size 50;
          L' = points_or L (linspace lo hi n);
          p = pi
      in elementwise (\<lambda>s. (1 / (p ^ 2)) * (ln (2 * p * s) + euler_gamma + 1)) L')"

subsection \<open>GSE\<close>

text \<open>
  \<open>GSE.nnsd\<close> generates its grid as \<open>np.linspace(spacings_range[0], spacings_range[0],
  10000)\<close>: both ends are the lower end of the range.
\<close>

definition GSE_nnsd ::
  "(real \<times> real) option \<Rightarrow> int option \<Rightarrow> real list option \<Rightarrow> error + real list" where
  "GSE_nnsd spacings_range n_points spacings =
     (let r = or_default spacings_range (0.0, 3.0); n = or_default n_points 1000;
          s = points_or spacings (linspace (fst r) (fst r) 10000);
          p = pi
      in elementwise
           (\<lambda>x. (262144 / (729 * p ^ 3)) * (x ^ 4) * exp (- ((64 / (9 * p)) * (x * x)))) s)"

definition GSE_nnnsd ::
  "(real \<times> real) option \<Rightarrow> int option \<Rightarrow> real list option \<Rightarrow> error + real list" where
  "GSE_nnnsd spacings_range n_points spacings = Inl NotImplementedError"

definition GSE_spectral_rigidity ::
  "real \<Rightarrow> real option \<Rightarrow> real option \<Rightarrow> int option \<Rightarrow> real list option
     \<Rightarrow> error + real list" where
  "GSE_spectral_rigidity euler_gamma min_L max_L L_grid_size L =
     (let lo = or_default min_L 0.5; hi = or_default max_L 20; n = or_default L_grid_size 50;
          L' = points_or L (linspace lo hi n);
          p = pi; y = euler_gamma
      in elementwise (\<lambda>s. (1 / (4 * (p ^ 2))) * (ln (4 * p * s) + y - 5 / 4 + (p ^ 2) / 8)) L')"

definition GSE_level_variance ::
  "real \<Rightarrow> real option \<Rightarrow> real option \<Rightarrow> int option \<Rightarrow> real list option
     \<Rightarrow> error + real list" where
  "GSE_level_variance euler_gamma min_L max_L L_grid_size L =
     (let lo = or_default min_L 0.5; hi = or_default max_L 20; n = or_default L_grid_size 50;
          L' = points_or L (linspace lo hi n);
          p = pi; y = euler_gamma
      in elementwise (\<lambda>s. (1 / (2 * (p ^ 2))) * (ln (4 * p * s) + y + 1 + (p ^ 2) / 8)) L')"

section \<open>construct.py\<close>

subsection \<open>numpy's random generator and eigenvalue routine\<close>

text \<open>
  The state of numpy's global generator is the stream of standard-normal variates it will
  deliver next; drawing \<open>k\<close> variates returns the first \<open>k\<close> and leaves the rest.
  A matrix is a list of rows. \<open>np.linalg.eigvalsh\<close> and \<open>np.random.seed\<close> are
  numpy's and are the two fields of the record \<open>numpy\<close>, a parameter of every function
  that calls them.
\<close>

type_synonym rng = "nat \<Rightarrow> real"

datatype matrix = RealMatrix "real list list" | ComplexMatrix "complex list list"

fun nrows :: "matrix \<Rightarrow> nat" where
  "nrows (RealMatrix M) = length M"
| "nrows (ComplexMatrix M) = length M"

record numpy =
  eigvalsh :: "matrix \<Rightarrow> real list"
  seed :: "int \<Rightarrow> rng"

definition draw :: "nat \<Rightarrow> rng \<Rightarrow> real list \<times> rng" where
  "draw k g = (map g [0..<k], (\<lambda>i. g (i + k)))"

text \<open>
  \<open>np.random.standard_normal\<close> with a one- and a two-dimensional shape, and
  \<open>np.random.normal(loc, scale, shape)\<close>, which is \<open>loc + scale * z\<close> for standard
  normal \<open>z\<close>. A negative dimension and a negative scale raise ValueError.
\<close>

definition reshape :: "nat \<Rightarrow> nat \<Rightarrow> real list \<Rightarrow> real list list" where
  "reshape r c zs = map (\<lambda>i. map (\<lambda>j. zs ! (i * c + j)) [0..<c]) [0..<r]"

definition standard_normal1 :: "int \<Rightarrow> rng \<Rightarrow> error + (real list \<times> rng)" where
  "standard_normal1 n g = (if n < 0 then Inl ValueError else Inr (draw (nat n) g))"

definition standard_normal2 :: "int \<Rightarrow> int \<Rightarrow> rng \<Rightarrow> error + (real list list \<times> rng)" where
  "standard_normal2 r c g =
     (if r < 0 \<or> c < 0 then Inl ValueError
      else let (zs, g') = draw (nat r * nat c) g in Inr (reshape (nat r) (nat c) zs, g'))"

definition normal2 ::
  "real \<Rightarrow> real \<Rightarrow> int \<Rightarrow> int \<Rightarrow> rng \<Rightarrow> error + (real list list \<times> rng)" where
  "normal2 loc scale r c g =
     (if scale < 0 then Inl ValueError
      else case standard_normal2 r c g of
             Inl e \<Rightarrow> Inl e
           | Inr (Z, g') \<Rightarrow> Inr (map (map (\<lambda>z. loc + scale * z)) Z, g'))"

text \<open>Transpose, elementwise sum and \<open>np.diag\<close> of a vector.\<close>

definition ncols :: "'a list list \<Rightarrow> nat" where
  "ncols M = (case M of [] \<Rightarrow> 0 | row # _ \<Rightarrow> length row)"

definition mat_T :: "'a list list \<Rightarrow> 'a list list" where
  "mat_T M = map (\<lambda>j. map (\<lambda>row. row ! j) M) [0..<ncols M]"

definition mat_add :: "'a::plus list list \<Rightarrow> 'a list list \<Rightarrow> 'a list list" where
  "mat_add A B = map2 (map2 (+)) A B"

definition diag :: "real list \<Rightarrow> real list list" where
  "diag v = map (\<lambda>i. map (\<lambda>j. if i = j then v ! i else 0) [0..<length v]) [0..<length v]"

subsection \<open>The matrix generators\<close>

text \<open>
  \<open>if seed is not None: np.random.seed(seed)\<close>; numpy takes a seed from 0 to
  \<open>2**32 - 1\<close> and raises ValueError for any other.
\<close>

definition reseed :: "numpy \<Rightarrow> int option \<Rightarrow> rng \<Rightarrow> error + rng" where
  "reseed np seed_arg g =
     (case seed_arg of
        None \<Rightarrow> Inr g
      | Some s \<Rightarrow> if s < 0 \<or> 2 ^ 32 \<le> s then Inl ValueError else Inr (seed np s))"

definition generate_GOE_matrix ::
  "numpy \<Rightarrow> int option \<Rightarrow> real option \<Rightarrow> real option \<Rightarrow> int option \<Rightarrow> rng
     \<Rightarrow> error + (real list list \<times> rng)" where
  "generate_GOE_matrix np size_arg mean_arg sd_arg seed_arg g =
     (let size = or_default size_arg 100; mean = or_default mean_arg 0;
          sd = or_default sd_arg 1
      in case reseed np seed_arg g of
           Inl e \<Rightarrow> Inl e
         | Inr g0 \<Rightarrow>
             (case (if mean \<noteq> 0 \<or> sd \<noteq> 1 then normal2 mean sd size size g0
                    else standard_normal2 size size g0) of
                Inl e \<Rightarrow> Inl e
              | Inr (M, g') \<Rightarrow> Inr (map (map (\<lambda>x. x / sqrt 2)) (mat_add M (mat_T M)), g')))"

definition generate_poisson :: "int option \<Rightarrow> rng \<Rightarrow> error + (real list list \<times> rng)" where
  "generate_poisson size_arg g =
     (case standard_normal1 (or_default size_arg 100) g of
        Inl e \<Rightarrow> Inl e
      | Inr (v, g') \<Rightarrow> Inr (diag v, g'))"

subsection \<open>generate\_eigs\<close>

text \<open>
  The matrix of the \<open>gue\<close> branch: \<open>A\<close> has the first draw as real parts and the second
  as imaginary parts, and \<open>M = (A + A.conjugate().T) / 2\<close>.
\<close>

definition generate_gue_matrix :: "int \<Rightarrow> rng \<Rightarrow> error + (complex list list \<times> rng)" where
  "generate_gue_matrix matsize g =
     (case standard_normal2 matsize matsize g of
        Inl e \<Rightarrow> Inl e
      | Inr (X, g1) \<Rightarrow>
          (case standard_normal2 matsize matsize g1 of
             Inl e \<Rightarrow> Inl e
           | Inr (Y, g2) \<Rightarrow>
               (let A = map2 (map2 (\<lambda>x y. complex_of_real x + \<i> * complex_of_real y)) X Y
                in Inr (map (map (\<lambda>z. z / 2)) (mat_add A (mat_T (map (map cnj) A))), g2))))"

text \<open>
  \<open>generate_eigs\<close>. The two progress lines printed under \<open>log\<close> are not part of the
  result and are left out; \<open>log\<close> stays an argument.
\<close>

definition generate_eigs ::
  "numpy \<Rightarrow> int \<Rightarrow> real option \<Rightarrow> real option \<Rightarrow> string option \<Rightarrow> bool option \<Rightarrow> rng
     \<Rightarrow> error + (real list \<times> rng)" where
  "generate_eigs np matsize mean_arg sd_arg kind_arg log_arg g =
     (let mean = or_default mean_arg 0; sd = or_default sd_arg 1;
          kind = or_default kind_arg ''goe''
      in if kind = ''poisson'' then
           (case generate_poisson (Some matsize) g of
              Inl e \<Rightarrow> Inl e
            | Inr (M, g') \<Rightarrow> Inr (eigvalsh np (RealMatrix M), g'))
         else if kind = ''uniform'' then Inl Exception
         else if kind = ''gue'' then
           (case generate_gue_matrix matsize g of
              Inl e \<Rightarrow> Inl e
            | Inr (M, g') \<Rightarrow> Inr (eigvalsh np (ComplexMatrix M), g'))
         else if kind = ''goe'' then
           (case generate_GOE_matrix np (Some matsize) (Some mean) (Some sd) None g of
              Inl e \<Rightarrow> Inl e
            | Inr (M, g') \<Rightarrow> Inr (eigvalsh np (RealMatrix M), g'))
         else Inl ValueError)"

definition generate_uniform ::
  "int option \<Rightarrow> real option \<Rightarrow> real option \<Rightarrow> error + real list" where
  "generate_uniform matsize lower upper = Inl NotImplementedError"

section \<open>unfold.py\<close>

text \<open>
  An \<open>Unfolded\<close> object. Its attribute \<open>_vals\<close> is the field \<open>priv_vals\<close>.

  Modelled from the spec: \<open>EigVals.__init__\<close>, the base class's constructor, whose file
  is not among the sources. The spec's data model has an Unfolded object hold the
  sequence \<open>originals\<close> it was constructed with, so \<open>super().__init__(originals)\<close>
  stores it in the field \<open>originals\<close>. The constructor of \<open>Unfolded\<close> then sets
  \<open>_vals\<close> to a copy of its second argument and compares nothing.
\<close>

record Unfolded =
  originals :: "real list"
  priv_vals :: "real list"

definition Unfolded_init :: "real list \<Rightarrow> real list \<Rightarrow> Unfolded" where
  "Unfolded_init originals_arg unfolded_arg =
     \<lparr>originals = originals_arg, priv_vals = unfolded_arg\<rparr>"

definition values_prop :: "Unfolded \<Rightarrow> real list" where
  "values_prop self = priv_vals self"

definition vals :: "Unfolded \<Rightarrow> real list" where
  "vals self = priv_vals self"

text \<open>
  \<open>plot_spectral_rigidity\<close> and \<open>plot_level_variance\<close>. The estimators
  \<open>spectralRigidity\<close> and \<open>level_number_variance\<close> and the two plot functions are in
  modules that are not among the sources: they are the parameters \<open>estimate\<close> and
  \<open>render\<close>. An estimator draws from the global generator, so it takes and returns the
  generator's state. The data frame built from \<open>L\<close> and the statistic is the pair of
  the two columns.
\<close>

definition plot_spectral_rigidity ::
  "(real list \<Rightarrow> int \<Rightarrow> int option \<Rightarrow> real \<Rightarrow> real \<Rightarrow> bool \<Rightarrow> rng
      \<Rightarrow> (real list \<times> real list) \<times> rng)
   \<Rightarrow> (real list \<Rightarrow> real list \<times> real list \<Rightarrow> string \<Rightarrow> string \<Rightarrow> string option
      \<Rightarrow> string list \<Rightarrow> 'p option)
   \<Rightarrow> Unfolded \<Rightarrow> real option \<Rightarrow> real option \<Rightarrow> int option \<Rightarrow> int option \<Rightarrow> string option
   \<Rightarrow> string option \<Rightarrow> string option \<Rightarrow> string list option \<Rightarrow> bool option \<Rightarrow> rng
   \<Rightarrow> (real list \<times> real list \<times> 'p option) \<times> rng" where
  "plot_spectral_rigidity estimate render self min_L max_L L_grid_size c_iters title mode
       outfile ensembles show_progress g =
     (let unfolded = values_prop self;
          ((L, delta), g') =
             estimate unfolded (or_default c_iters 50000) L_grid_size (or_default min_L 2)
               (or_default max_L 50) (or_default show_progress True) g;
          plot_result =
             render unfolded (L, delta) (or_default title ''Spectral Rigidity'')
               (or_default mode ''block'') outfile
               (or_default ensembles [''poisson'', ''goe'', ''gue'', ''gse''])
      in ((L, delta, plot_result), g'))"

definition plot_level_variance ::
  "(real list \<Rightarrow> int \<Rightarrow> int option \<Rightarrow> real \<Rightarrow> real \<Rightarrow> bool \<Rightarrow> rng
      \<Rightarrow> (real list \<times> real list) \<times> rng)
   \<Rightarrow> (real list \<Rightarrow> real list \<times> real list \<Rightarrow> string \<Rightarrow> string \<Rightarrow> string option
      \<Rightarrow> string list \<Rightarrow> 'p option)
   \<Rightarrow> Unfolded \<Rightarrow> real option \<Rightarrow> real option \<Rightarrow> int option \<Rightarrow> int option \<Rightarrow> string option
   \<Rightarrow> string option \<Rightarrow> string option \<Rightarrow> string list option \<Rightarrow> bool option \<Rightarrow> rng
   \<Rightarrow> (real list \<times> real list \<times> 'p option) \<times> rng" where
  "plot_level_variance estimate render self min_L max_L c_iters L_grid_size title mode
       outfile ensembles show_progress g =
     (let unfolded = values_prop self;
          ((L, sigma), g') =
             estimate unfolded (or_default c_iters 50000) L_grid_size (or_default min_L 2)
               (or_default max_L 50) (or_default show_progress True) g;
          plot_result =
             render unfolded (L, sigma) (or_default title ''Level Number Variance'')
               (or_default mode ''block'') outfile
               (or_default ensembles [''poisson'', ''goe'', ''gue'', ''gse''])
      in ((L, sigma, plot_result), g'))"

section \<open>construct.py: the functions that build on the above\<close>

subsection \<open>goe\_unfolded\<close>

text \<open>
  \<open>np.arctan(E / d)\<close> for floats: a non-zero \<open>E\<close> over \<open>d = 0.0\<close> is an infinity
  of the sign of \<open>E\<close> (numpy warns and does not raise), and the arctangent of an
  infinity is \<open>pi / 2\<close> with that sign. \<open>0.0 / 0.0\<close> is NaN; \<open>explicit\<close> never
  divides zero by zero when \<open>N\<close> is positive (lemma \<open>explicit_no_nan\<close>), and the value 0
  stands for NaN.
\<close>

definition arctan_div :: "real \<Rightarrow> real \<Rightarrow> real" where
  "arctan_div E d =
     (if d = 0 then (if 0 < E then pi / 2 else if E < 0 then - (pi / 2) else 0)
      else arctan (E / d))"

text \<open>\<open>explicit\<close>, the function nested in \<open>goe_unfolded\<close>; \<open>N\<close> is its free variable.\<close>

definition explicit :: "int \<Rightarrow> real \<Rightarrow> error + real" where
  "explicit N E =
     (if \<bar>E\<bar> \<le> 2 * sqrt (real_of_int N) then
        Inr (0.5
             + (E / (4 * real_of_int N * pi)) * sqrt (4 * real_of_int N - E * E)
             + (1 / pi) * arctan_div E (sqrt (4 * real_of_int N - E * E)))
      else if E < - 2 * sqrt (real_of_int N) then Inr 0
      else if E > 2 * sqrt (real_of_int N) then Inr 1
      else Inl ValueError)"

text \<open>
  The loop \<open>for i in range(N): unfolded[i] = N * explicit(eigs[i])\<close>, over the indices
  still to visit. Reading \<open>eigs[i]\<close> past the end raises IndexError.
\<close>

fun unfold_loop :: "int \<Rightarrow> real list \<Rightarrow> nat list \<Rightarrow> error + real list" where
  "unfold_loop N eigs [] = Inr []"
| "unfold_loop N eigs (i # rest) =
     (if length eigs \<le> i then Inl IndexError
      else case explicit N (eigs ! i) of
             Inl e \<Rightarrow> Inl e
           | Inr v \<Rightarrow>
               (case unfold_loop N eigs rest of
                  Inl e \<Rightarrow> Inl e
                | Inr vs \<Rightarrow> Inr (real_of_int N * v # vs)))"

definition goe_unfolded :: "numpy \<Rightarrow> int \<Rightarrow> rng \<Rightarrow> error + (Unfolded \<times> rng)" where
  "goe_unfolded np matsize g =
     (let N = matsize
      in case generate_GOE_matrix np (Some N) (Some 0) (Some 1) None g of
           Inl e \<Rightarrow> Inl e
         | Inr (M, g') \<Rightarrow>
             (let eigs = eigvalsh np (RealMatrix M)
              in case unfold_loop N eigs [0..<nat N] of
                   Inl e \<Rightarrow> Inl e
                 | Inr unfolded \<Rightarrow> Inr (Unfolded_init eigs unfolded, g')))"

subsection \<open>fast\_poisson\_eigs\<close>

text \<open>\<open>int(x)\<close> of a float truncates towards zero.\<close>

definition py_int :: "real \<Rightarrow> int" where
  "py_int x = (if 0 \<le> x then \<lfloor>x\<rfloor> else \<lceil>x\<rceil>)"

text \<open>
  \<open>eigs_submats[i, :] = sub_eigs\<close> writes a row of \<open>width\<close> entries: a vector of that
  length as it is, a vector of length one broadcast, any other length raises ValueError.
\<close>

definition assign_row :: "nat \<Rightarrow> real list \<Rightarrow> error + real list" where
  "assign_row width v =
     (if length v = width then Inr v
      else if length v = 1 then Inr (replicate width (hd v))
      else Inl ValueError)"

text \<open>
  The loop over \<open>range(n_submats)\<close>, by the number of blocks still to generate; it
  returns the rows written and the generator's state after the last draw.
\<close>

fun submats_loop ::
  "numpy \<Rightarrow> int \<Rightarrow> nat \<Rightarrow> rng \<Rightarrow> error + (real list list \<times> rng)" where
  "submats_loop np sub_matsize 0 g = Inr ([], g)"
| "submats_loop np sub_matsize (Suc k) g =
     (case generate_GOE_matrix np (Some sub_matsize) None None None g of
        Inl e \<Rightarrow> Inl e
      | Inr (M, g1) \<Rightarrow>
          (case assign_row (nat sub_matsize) (eigvalsh np (RealMatrix M)) of
             Inl e \<Rightarrow> Inl e
           | Inr row \<Rightarrow>
               (case submats_loop np sub_matsize k g1 of
                  Inl e \<Rightarrow> Inl e
                | Inr (rows, g2) \<Rightarrow> Inr (row # rows, g2))))"

text \<open>
  \<open>fast_poisson_eigs\<close>. \<open>matsize / sub_matsize\<close> raises ZeroDivisionError for a zero
  divisor, and \<open>np.empty\<close> raises ValueError for a negative dimension.
\<close>

definition fast_poisson_eigs ::
  "numpy \<Rightarrow> int option \<Rightarrow> int option \<Rightarrow> rng \<Rightarrow> error + (real list \<times> rng)" where
  "fast_poisson_eigs np matsize_arg sub_matsize_arg g =
     (let matsize = or_default matsize_arg 1000; sub_matsize = or_default sub_matsize_arg 100
      in if matsize < 100 then generate_eigs np matsize None None (Some ''goe'') None g
         else if sub_matsize \<ge> matsize then Inl ValueError
         else if sub_matsize = 0 then Inl ZeroDivisionError
         else
           (let n_submats = py_int (real_of_int matsize / real_of_int sub_matsize);
                last_matsize = matsize mod sub_matsize
            in if n_submats < 0 \<or> sub_matsize < 0 then Inl ValueError
               else case submats_loop np sub_matsize (nat n_submats) g of
                      Inl e \<Rightarrow> Inl e
                    | Inr (eigs_submats, g1) \<Rightarrow>
                        (case generate_GOE_matrix np (Some last_matsize) None None None g1 of
                           Inl e \<Rightarrow> Inl e
                         | Inr (M, g2) \<Rightarrow>
                             (let eigs_remain = eigvalsh np (RealMatrix M);
                                  eigs = concat eigs_submats @ eigs_remain
                              in Inr (sort eigs, g2)))))"

section \<open>The specification's vocabulary\<close>

text \<open>
  The grid the specification describes for a range \<open>(lo, hi)\<close> and a point count
  \<open>k\<close>: \<open>k\<close> points, the first \<open>lo\<close>, the last \<open>hi\<close>, consecutive points the
  same distance apart. \<open>even_grid\<close> is that grid and \<open>evenly_spaced\<close> says what makes
  it one.
\<close>

definition even_grid :: "real \<Rightarrow> real \<Rightarrow> nat \<Rightarrow> real list" where
  "even_grid lo hi k = map (\<lambda>i. lo + real i * ((hi - lo) / real (k - 1))) [0..<k]"

definition evenly_spaced :: "real \<Rightarrow> real \<Rightarrow> nat \<Rightarrow> real list \<Rightarrow> bool" where
  "evenly_spaced lo hi k g \<longleftrightarrow>
     length g = k \<and> (0 < k \<longrightarrow> g ! 0 = lo) \<and> (1 < k \<longrightarrow> g ! (k - 1) = hi) \<and>
     (\<forall>i. Suc i < k \<longrightarrow> g ! Suc i - g ! i = (hi - lo) / real (k - 1))"

text \<open>
  The specification's unscaled closed form for \<open>goe_unfolded\<close>, in its three cases. At
  \<open>\<bar>E\<bar> = 2 * sqrt N\<close> the quotient under the arctangent has a zero denominator, and
  the arctangent is the float one, \<open>arctan_div\<close>.
\<close>

definition closed_form :: "int \<Rightarrow> real \<Rightarrow> real" where
  "closed_form N E =
     (if \<bar>E\<bar> \<le> 2 * sqrt (real_of_int N) then
        0.5 + (E / (4 * real_of_int N * pi)) * sqrt (4 * real_of_int N - E\<^sup>2)
            + (1 / pi) * arctan_div E (sqrt (4 * real_of_int N - E\<^sup>2))
      else if E < - 2 * sqrt (real_of_int N) then 0
      else 1)"

section \<open>A concrete environment\<close>

text \<open>
  A generator that delivers zeros and an eigenvalue routine that is right on diagonal
  matrices (the sorted diagonal), for evaluating the functions at concrete arguments:
  every matrix generated from the zero stream is the zero matrix.
\<close>

definition zeros :: rng where
  "zeros = (\<lambda>i. 0)"

fun diagonal_eigvalsh :: "matrix \<Rightarrow> real list" where
  "diagonal_eigvalsh (RealMatrix M) = sort (map (\<lambda>i. M ! i ! i) [0..<length M])"
| "diagonal_eigvalsh (ComplexMatrix M) = sort (map (\<lambda>i. Re (M ! i ! i)) [0..<length M])"

definition numpy0 :: numpy where
  "numpy0 = \<lparr>eigvalsh = diagonal_eigvalsh, seed = (\<lambda>s. zeros)\<rparr>"

section \<open>Facts about the helpers\<close>

lemma or_default_simps:
  "or_default None d = d" "or_default (Some v) d = v"
  by (simp_all add: or_default_def)

lemma points_or_simps:
  "points_or (Some s) g = Inr s" "points_or None g = g"
  by (simp_all add: points_or_def)

lemma elementwise_simps:
  "elementwise f (Inr s) = Inr (map f s)" "elementwise f (Inl e) = Inl e"
  by (simp_all add: elementwise_def)

lemmas ensemble_defs =
  Poisson_nnsd_def Poisson_nnnsd_def Poisson_spectral_rigidity_def Poisson_level_variance_def
  GOE_nnsd_def GOE_nnnsd_def GOE_spectral_rigidity_def GOE_level_variance_def
  GUE_nnsd_def GUE_spectral_rigidity_def GUE_level_variance_def
  GSE_nnsd_def GSE_spectral_rigidity_def GSE_level_variance_def

section \<open>The generated grid\<close>

text \<open>For a non-negative count, numpy's \<open>linspace\<close> is the specification's grid.\<close>

lemma linspace_nonneg:
  "0 \<le> n \<Longrightarrow> linspace a b n = Inr (even_grid a b (nat n))"
proof -
  assume n: "0 \<le> n"
  have "(if 0 < n - 1 then real i * ((b - a) / real_of_int (n - 1)) + a else a)
        = a + real i * ((b - a) / real (nat n - 1))" if "i < nat n" for i
  proof (cases "0 < n - 1")
    case True
    then have "real (nat n - 1) = real_of_int (n - 1)" by (simp add: of_nat_diff)
    with True show ?thesis by simp
  next
    case False
    with that n have "i = 0" by simp
    with False show ?thesis by simp
  qed
  then show ?thesis using n by (simp add: linspace_def even_grid_def Let_def)
qed

lemma linspace_negative: "n < 0 \<Longrightarrow> linspace a b n = Inl ValueError"
  by (simp add: linspace_def)

lemma linspace_const: "0 \<le> n \<Longrightarrow> linspace a a n = Inr (replicate (nat n) a)"
  by (simp add: linspace_nonneg even_grid_def map_replicate_const)

lemma even_grid_evenly_spaced: "evenly_spaced lo hi k (even_grid lo hi k)"
proof -
  define D where "D = (hi - lo) / real (k - 1)"
  have g: "even_grid lo hi k = map (\<lambda>i. lo + real i * D) [0..<k]"
    by (simp add: even_grid_def D_def)
  have last: "lo + real (k - 1) * D = hi" if "1 < k"
    using that by (simp add: D_def)
  have step: "lo + real (Suc i) * D - (lo + real i * D) = D" for i
    by (simp add: algebra_simps)
  show ?thesis
    unfolding evenly_spaced_def D_def [symmetric] g
    using last step by (simp del: of_nat_Suc)
qed

text \<open>\<open>evenly_spaced\<close> holds of no other list.\<close>

lemma evenly_spaced_unique:
  assumes "evenly_spaced lo hi k g"
  shows "g = even_grid lo hi k"
proof -
  define D where "D = (hi - lo) / real (k - 1)"
  have len: "length g = k" using assms by (simp add: evenly_spaced_def)
  have "\<forall>i. Suc i < k \<longrightarrow> g ! Suc i - g ! i = D"
    using assms unfolding evenly_spaced_def D_def [symmetric] by blast
  then have step: "g ! Suc i = g ! i + D" if "Suc i < k" for i
    using that by (simp add: algebra_simps)
  have first: "0 < k \<Longrightarrow> g ! 0 = lo" using assms by (simp add: evenly_spaced_def)
  have "i < k \<Longrightarrow> g ! i = lo + real i * D" for i
  proof (induction i)
    case 0
    then show ?case using first by simp
  next
    case (Suc i)
    then show ?case using step [of i] by (simp add: algebra_simps)
  qed
  then show ?thesis using len
    by (intro nth_equalityI) (simp_all add: even_grid_def D_def)
qed

section \<open>Closed forms of spectral rigidity and level variance\<close>

text \<open>
  Claim C1. For each of Poisson, GOE, GUE and GSE, \<open>spectral_rigidity\<close> and
  \<open>level_variance\<close> return one value per point of the evaluation grid, the value at a
  point \<open>x\<close> being the closed form of the specification's table at \<open>x\<close>. The grid is
  the explicit argument \<open>L\<close> when one is given, and otherwise the grid \<open>linspace\<close>
  generates from \<open>min_L\<close>, \<open>max_L\<close> and \<open>L_grid_size\<close> or their defaults. The result
  being \<open>map f grid\<close> says both that it is as long as the grid and that its \<open>i\<close>-th
  entry is \<open>f\<close> of the grid's \<open>i\<close>-th point. \<open>y\<close> is the Euler-Mascheroni constant.
\<close>

theorem rigidity_and_variance_closed_forms:
  assumes "L = Some grid \<or>
           (L = None \<and>
            linspace (or_default min_L 0.5) (or_default max_L 20) (or_default L_grid_size 50)
              = Inr grid)"
  shows "Poisson_spectral_rigidity min_L max_L L_grid_size L = Inr (map (\<lambda>x. x / 30) grid)
     \<and> Poisson_level_variance min_L max_L L_grid_size L = Inr (map (\<lambda>x. x / 2) grid)
     \<and> GOE_spectral_rigidity y min_L max_L L_grid_size L =
         Inr (map (\<lambda>x. (1 / pi\<^sup>2) * (ln (2 * pi * x) + y - 5 / 4 - pi\<^sup>2 / 8)) grid)
     \<and> GOE_level_variance y min_L max_L L_grid_size L =
         Inr (map (\<lambda>x. (2 / pi\<^sup>2) * (ln (2 * pi * x) + y + 1 - pi\<^sup>2 / 8)) grid)
     \<and> GUE_spectral_rigidity y min_L max_L L_grid_size L =
         Inr (map (\<lambda>x. (1 / (2 * pi\<^sup>2)) * (ln (2 * pi * x) + y - 5 / 4)) grid)
     \<and> GUE_level_variance y min_L max_L L_grid_size L =
         Inr (map (\<lambda>x. (1 / pi\<^sup>2) * (ln (2 * pi * x) + y + 1)) grid)
     \<and> GSE_spectral_rigidity y min_L max_L L_grid_size L =
         Inr (map (\<lambda>x. (1 / (4 * pi\<^sup>2)) * (ln (4 * pi * x) + y - 5 / 4 + pi\<^sup>2 / 8)) grid)
     \<and> GSE_level_variance y min_L max_L L_grid_size L =
         Inr (map (\<lambda>x. (1 / (2 * pi\<^sup>2)) * (ln (4 * pi * x) + y + 1 + pi\<^sup>2 / 8)) grid)"
  using assms
  by (auto simp add: ensemble_defs Let_def points_or_simps elementwise_simps)

text \<open>
  The theorem at an explicit grid of two points and at the grid generated from the
  defaults, fifty points from 0.5 to 20.
\<close>

theorem rigidity_and_variance_closed_forms_witness:
  "Poisson_spectral_rigidity None None None (Some [30, 60]) = Inr [1, 2]
   \<and> Poisson_level_variance None None None (Some [30, 60]) = Inr [15, 30]
   \<and> Poisson_spectral_rigidity None None None None
       = Inr (map (\<lambda>x. x / 30) (even_grid (1 / 2) 20 50))
   \<and> GUE_level_variance 0 None None None None
       = Inr (map (\<lambda>x. (1 / pi\<^sup>2) * (ln (2 * pi * x) + 0 + 1)) (even_grid (1 / 2) 20 50))"
proof -
  have generated:
    "linspace (or_default None 0.5) (or_default None 20) (or_default None 50)
       = Inr (even_grid (1 / 2) 20 50)"
    by (simp add: or_default_simps linspace_nonneg)
  show ?thesis
    using rigidity_and_variance_closed_forms
            [where L = "Some [30, 60]" and grid = "[30, 60]" and min_L = None and max_L = None
               and L_grid_size = None and y = 0]
          rigidity_and_variance_closed_forms
            [where L = None and grid = "even_grid (1 / 2) 20 50" and min_L = None
               and max_L = None and L_grid_size = None and y = 0]
          generated
    by simp
qed

section \<open>Grids generated from a range and a point count\<close>

lemma exp_5_gt_16: "(16::real) < exp 5"
proof -
  have "(2::real) \<le> exp 1" using exp_ge_add_one_self [of "1::real"] by simp
  then have "(2::real) ^ 5 \<le> exp 1 ^ 5" by (intro power_mono) simp_all
  also have "exp (1::real) ^ 5 = exp 5" using exp_of_nat_mult [of 5 "1::real"] by simp
  finally show ?thesis by simp
qed

text \<open>The formula of \<open>GOE.nnnsd\<close> takes different values at 1 and at 2.\<close>

lemma GOE_nnnsd_formula_at_1_and_2:
  "(2 ^ 18 / (3 ^ 6 * pi ^ 3)) * (1::real) ^ 4 * exp (- (64 / (9 * pi)) * 1\<^sup>2)
   \<noteq> (2 ^ 18 / (3 ^ 6 * pi ^ 3)) * 2 ^ 4 * exp (- (64 / (9 * pi)) * 2\<^sup>2)"
proof -
  define k where "k = 64 / (9 * pi)"
  have "3 * k = 64 / (3 * pi)" by (simp add: k_def)
  moreover have "5 < 64 / (3 * pi)"
    using pi_less_4 pi_gt_zero by (simp add: field_simps)
  ultimately have "5 < 3 * k" by simp
  then have "exp 5 < exp (3 * k)" by (simp only: exp_less_cancel_iff)
  with exp_5_gt_16 have big: "16 < exp (3 * k)" by (rule less_trans)
  have "exp (- k) = exp (3 * k) * exp (- (4 * k))"
    by (simp add: exp_add [symmetric])
  then have "exp (- k) > 16 * exp (- (4 * k))"
    using big by simp
  then have ne: "exp (- k * 1\<^sup>2) \<noteq> 16 * exp (- k * 2\<^sup>2)" by (simp add: mult.commute)
  have c: "(2 ^ 18 / (3 ^ 6 * pi ^ 3)) \<noteq> (0::real)" by simp
  have "c * 1 ^ 4 * a \<noteq> c * 2 ^ 4 * b" if "c \<noteq> 0" "a \<noteq> 16 * b" for a b c :: real
    using that by simp
  from this [OF c ne] show ?thesis unfolding k_def .
qed

text \<open>
  Claim C5 as stated fails. \<open>GOE.nnnsd\<close> called with the range \<open>(0, 2)\<close>, two points
  and no explicit spacings does not return its formula on the two-point grid spanning
  the range, \<open>[0, 2]\<close>: it halves the generated grid and evaluates the formula at
  \<open>[0, 1]\<close>.
\<close>

theorem GOE_nnnsd_not_on_the_grid_of_the_range:
  "GOE_nnnsd (Some (0, 2)) (Some 2) None
   \<noteq> Inr (map (\<lambda>x. (2 ^ 18 / (3 ^ 6 * pi ^ 3)) * x ^ 4 * exp (- (64 / (9 * pi)) * x\<^sup>2))
           (even_grid 0 2 2))"
proof -
  have g: "even_grid 0 2 2 = [0, 2]"
    by (simp add: even_grid_def upt_rec)
  have "GOE_nnnsd (Some (0, 2)) (Some 2) None
        = Inr (map (\<lambda>x. (2 ^ 18 / (3 ^ 6 * pi ^ 3)) * x ^ 4 * exp (- (64 / (9 * pi)) * x\<^sup>2))
                [0, 1])"
    by (simp add: GOE_nnnsd_def Let_def or_default_simps points_or_simps elementwise_simps
        linspace_nonneg g power2_eq_square)
  then show ?thesis
    using GOE_nnnsd_formula_at_1_and_2 by (simp add: g)
qed

text \<open>
  Claim C5, amended. Called without explicit points and with a non-negative point
  count, \<open>Poisson.nnsd\<close>, \<open>GOE.nnsd\<close>, \<open>Poisson.nnnsd\<close> and the spectral rigidity and
  level variance of all four ensembles return their formula on the evenly spaced grid of
  exactly that many points from the lower to the upper end of the range; an argument left
  out takes the default of the signature: range \<open>(0, 3)\<close> for the two NNSD, \<open>(0, 4)\<close>
  for \<open>Poisson.nnnsd\<close>, 1000 points for the three of them, and 0.5, 20 and 50 points for
  rigidity and level variance. \<open>GOE.nnnsd\<close> returns its formula on that grid divided by
  two. The last conjunct says that \<open>even_grid\<close> is the evenly spaced grid.
  Nothing is said of \<open>GUE.nnsd\<close> and \<open>GSE.nnsd\<close>, whose generated grids do not use the
  point count, nor of the default range of \<open>GOE.nnnsd\<close>.
\<close>

theorem generated_grid_of_range_and_count:
  assumes "0 \<le> or_default n 1000" and "0 \<le> or_default k 50"
  shows
    "Poisson_nnsd r n None =
       Inr (map (\<lambda>x. exp (- x))
              (even_grid (fst (or_default r (0, 3))) (snd (or_default r (0, 3)))
                 (nat (or_default n 1000))))
     \<and> GOE_nnsd r n None =
       Inr (map (\<lambda>x. (pi * x / 2) * exp (- (pi / 4) * x\<^sup>2))
              (even_grid (fst (or_default r (0, 3))) (snd (or_default r (0, 3)))
                 (nat (or_default n 1000))))
     \<and> Poisson_nnnsd gamma r n None =
       Inr (map (\<lambda>x. brody_dist gamma x 0.6)
              (even_grid (fst (or_default r (0, 4))) (snd (or_default r (0, 4)))
                 (nat (or_default n 1000))))
     \<and> GOE_nnnsd (Some (lo, hi)) n None =
       Inr (map (\<lambda>x. (2 ^ 18 / (3 ^ 6 * pi ^ 3)) * x ^ 4 * exp (- (64 / (9 * pi)) * x\<^sup>2))
              (map (\<lambda>x. x / 2) (even_grid lo hi (nat (or_default n 1000)))))
     \<and> Poisson_spectral_rigidity min_L max_L k None =
       Inr (map (\<lambda>x. x / 30)
              (even_grid (or_default min_L 0.5) (or_default max_L 20) (nat (or_default k 50))))
     \<and> Poisson_level_variance min_L max_L k None =
       Inr (map (\<lambda>x. x / 2)
              (even_grid (or_default min_L 0.5) (or_default max_L 20) (nat (or_default k 50))))
     \<and> GOE_spectral_rigidity y min_L max_L k None =
       Inr (map (\<lambda>x. (1 / pi\<^sup>2) * (ln (2 * pi * x) + y - 5 / 4 - pi\<^sup>2 / 8))
              (even_grid (or_default min_L 0.5) (or_default max_L 20) (nat (or_default k 50))))
     \<and> GOE_level_variance y min_L max_L k None =
       Inr (map (\<lambda>x. (2 / pi\<^sup>2) * (ln (2 * pi * x) + y + 1 - pi\<^sup>2 / 8))
              (even_grid (or_default min_L 0.5) (or_default max_L 20) (nat (or_default k 50))))
     \<and> GUE_spectral_rigidity y min_L max_L k None =
       Inr (map (\<lambda>x. (1 / (2 * pi\<^sup>2)) * (ln (2 * pi * x) + y - 5 / 4))
              (even_grid (or_default min_L 0.5) (or_default max_L 20) (nat (or_default k 50))))
     \<and> GUE_level_variance y min_L max_L k None =
       Inr (map (\<lambda>x. (1 / pi\<^sup>2) * (ln (2 * pi * x) + y + 1))
              (even_grid (or_default min_L 0.5) (or_default max_L 20) (nat (or_default k 50))))
     \<and> GSE_spectral_rigidity y min_L max_L k None =
       Inr (map (\<lambda>x. (1 / (4 * pi\<^sup>2)) * (ln (4 * pi * x) + y - 5 / 4 + pi\<^sup>2 / 8))
              (even_grid (or_default min_L 0.5) (or_default max_L 20) (nat (or_default k 50))))
     \<and> GSE_level_variance y min_L max_L k None =
       Inr (map (\<lambda>x. (1 / (2 * pi\<^sup>2)) * (ln (4 * pi * x) + y + 1 + pi\<^sup>2 / 8))
              (even_grid (or_default min_L 0.5) (or_default max_L 20) (nat (or_default k 50))))
     \<and> evenly_spaced a b m (even_grid a b m)"
  using assms
  by (simp add: ensemble_defs Let_def points_or_simps elementwise_simps linspace_nonneg
      or_default_simps even_grid_evenly_spaced power2_eq_square algebra_simps)

text \<open>
  The theorem at the defaults (1000 points on \<open>(0, 3)\<close>, 50 points from 0.5 to 20) and
  at \<open>GOE.nnnsd\<close> with three points on \<open>(0, 4)\<close>.
\<close>

theorem generated_grid_of_range_and_count_witness:
  "Poisson_nnsd None None None = Inr (map (\<lambda>x. exp (- x)) (even_grid 0 3 1000))
   \<and> Poisson_spectral_rigidity None None None None
       = Inr (map (\<lambda>x. x / 30) (even_grid (1 / 2) 20 50))
   \<and> GOE_nnnsd (Some (0, 4)) (Some 3) None
       = Inr (map (\<lambda>x. (2 ^ 18 / (3 ^ 6 * pi ^ 3)) * x ^ 4 * exp (- (64 / (9 * pi)) * x\<^sup>2))
               (map (\<lambda>x. x / 2) (even_grid 0 4 3)))
   \<and> evenly_spaced 0 4 3 (even_grid 0 4 3)"
proof -
  have a: "0 \<le> or_default (None :: int option) 1000" "0 \<le> or_default (None :: int option) 50"
    by (simp_all add: or_default_simps)
  have b: "0 \<le> or_default (Some (3::int)) 1000"
    by (simp add: or_default_simps)
  show ?thesis
    using generated_grid_of_range_and_count
            [OF a, where r = None and min_L = None and max_L = None and a = 0 and b = 4
               and m = 3]
          generated_grid_of_range_and_count [OF b a(2), where lo = 0 and hi = 4]
    by (simp add: or_default_simps)
qed

section \<open>Explicit points\<close>

text \<open>
  Claim C6. Each of the fourteen implemented observables, called with an explicit
  sequence \<open>s\<close> of points, returns its formula applied to each point of \<open>s\<close>, whatever
  the range and point-count arguments are (first fourteen conjuncts); two calls that
  differ only in those arguments return the same (last fourteen). \<open>gamma\<close> is the gamma
  function and \<open>y\<close> the Euler-Mascheroni constant.
\<close>

theorem explicit_points_override:
  "Poisson_nnsd r n (Some s) = Inr (map (\<lambda>x. exp (- x)) s)
   \<and> Poisson_nnnsd gamma r n (Some s) =
       Inr (map (\<lambda>x. (0.6 + 1) * (gamma ((0.6 + 2) / (0.6 + 1)) powr (0.6 + 1)) * x powr 0.6
                     * exp (- (gamma ((0.6 + 2) / (0.6 + 1)) powr (0.6 + 1)) * x powr (0.6 + 1))) s)
   \<and> Poisson_spectral_rigidity lo hi k (Some s) = Inr (map (\<lambda>x. x / 30) s)
   \<and> Poisson_level_variance lo hi k (Some s) = Inr (map (\<lambda>x. x / 2) s)
   \<and> GOE_nnsd r n (Some s) = Inr (map (\<lambda>x. (pi * x / 2) * exp (- (pi / 4) * x\<^sup>2)) s)
   \<and> GOE_nnnsd r n (Some s) =
       Inr (map (\<lambda>x. (2 ^ 18 / (3 ^ 6 * pi ^ 3)) * x ^ 4 * exp (- (64 / (9 * pi)) * x\<^sup>2)) s)
   \<and> GOE_spectral_rigidity y lo hi k (Some s) =
       Inr (map (\<lambda>x. (1 / pi\<^sup>2) * (ln (2 * pi * x) + y - 5 / 4 - pi\<^sup>2 / 8)) s)
   \<and> GOE_level_variance y lo hi k (Some s) =
       Inr (map (\<lambda>x. (2 / pi\<^sup>2) * (ln (2 * pi * x) + y + 1 - pi\<^sup>2 / 8)) s)
   \<and> GUE_nnsd r n (Some s) = Inr (map (\<lambda>x. (32 / pi\<^sup>2) * x\<^sup>2 * exp (- 4 * x\<^sup>2 / pi)) s)
   \<and> GUE_spectral_rigidity y lo hi k (Some s) =
       Inr (map (\<lambda>x. (1 / (2 * pi\<^sup>2)) * (ln (2 * pi * x) + y - 5 / 4)) s)
   \<and> GUE_level_variance y lo hi k (Some s) =
       Inr (map (\<lambda>x. (1 / pi\<^sup>2) * (ln (2 * pi * x) + y + 1)) s)
   \<and> GSE_nnsd r n (Some s) =
       Inr (map (\<lambda>x. (262144 / (729 * pi ^ 3)) * x ^ 4 * exp (- (64 / (9 * pi)) * x\<^sup>2)) s)
   \<and> GSE_spectral_rigidity y lo hi k (Some s) =
       Inr (map (\<lambda>x. (1 / (4 * pi\<^sup>2)) * (ln (4 * pi * x) + y - 5 / 4 + pi\<^sup>2 / 8)) s)
   \<and> GSE_level_variance y lo hi k (Some s) =
       Inr (map (\<lambda>x. (1 / (2 * pi\<^sup>2)) * (ln (4 * pi * x) + y + 1 + pi\<^sup>2 / 8)) s)
   \<and> Poisson_nnsd r n (Some s) = Poisson_nnsd r' n' (Some s)
   \<and> Poisson_nnnsd gamma r n (Some s) = Poisson_nnnsd gamma r' n' (Some s)
   \<and> Poisson_spectral_rigidity lo hi k (Some s) = Poisson_spectral_rigidity lo' hi' k' (Some s)
   \<and> Poisson_level_variance lo hi k (Some s) = Poisson_level_variance lo' hi' k' (Some s)
   \<and> GOE_nnsd r n (Some s) = GOE_nnsd r' n' (Some s)
   \<and> GOE_nnnsd r n (Some s) = GOE_nnnsd r' n' (Some s)
   \<and> GOE_spectral_rigidity y lo hi k (Some s) = GOE_spectral_rigidity y lo' hi' k' (Some s)
   \<and> GOE_level_variance y lo hi k (Some s) = GOE_level_variance y lo' hi' k' (Some s)
   \<and> GUE_nnsd r n (Some s) = GUE_nnsd r' n' (Some s)
   \<and> GUE_spectral_rigidity y lo hi k (Some s) = GUE_spectral_rigidity y lo' hi' k' (Some s)
   \<and> GUE_level_variance y lo hi k (Some s) = GUE_level_variance y lo' hi' k' (Some s)
   \<and> GSE_nnsd r n (Some s) = GSE_nnsd r' n' (Some s)
   \<and> GSE_spectral_rigidity y lo hi k (Some s) = GSE_spectral_rigidity y lo' hi' k' (Some s)
   \<and> GSE_level_variance y lo hi k (Some s) = GSE_level_variance y lo' hi' k' (Some s)"
  by (simp add: ensemble_defs brody_dist_def Let_def points_or_simps elementwise_simps
      power2_eq_square algebra_simps)

section \<open>The generated grid of GSE.nnsd\<close>

text \<open>
  Claim C7. Without explicit spacings, \<open>GSE.nnsd\<close> returns 10000 copies of its formula
  \<open>(262144 / (729 pi^3)) s^4 exp (- (64 / (9 pi)) s^2)\<close> at \<open>s\<close> the lower end of the
  range, whatever the upper end and \<open>n_points\<close> are; with the default range \<open>(0, 3)\<close>
  that is 10000 zeros. The formula is the one \<open>GOE.nnnsd\<close> applies (third conjunct, at
  explicit points).
\<close>

theorem GSE_nnsd_constant_grid:
  "GSE_nnsd (Some (lo, hi)) n None =
     Inr (replicate 10000 ((262144 / (729 * pi ^ 3)) * lo ^ 4 * exp (- (64 / (9 * pi)) * lo\<^sup>2)))
   \<and> GSE_nnsd None n None = Inr (replicate 10000 0)
   \<and> GSE_nnsd r n (Some s) = GOE_nnnsd r' n' (Some s)"
  by (simp add: GSE_nnsd_def GOE_nnnsd_def Let_def points_or_simps elementwise_simps
      linspace_const or_default_simps power2_eq_square)

section \<open>Unimplemented operations\<close>

text \<open>
  Claim C8. \<open>generate_eigs\<close> with \<open>kind = "uniform"\<close>, \<open>generate_uniform\<close>,
  \<open>GUE.nnnsd\<close> and \<open>GSE.nnnsd\<close> raise whatever their other arguments are: each result
  is an exception and never a value.
\<close>

theorem unimplemented_operations_raise:
  "generate_eigs np matsize mean sd (Some ''uniform'') logging g = Inl Exception
   \<and> generate_uniform m lower upper = Inl NotImplementedError
   \<and> GUE_nnnsd r n s = Inl NotImplementedError
   \<and> GSE_nnnsd r n s = Inl NotImplementedError"
  by (simp add: generate_eigs_def generate_uniform_def GUE_nnnsd_def GSE_nnnsd_def
      or_default_simps)

section \<open>The matrix generators return square matrices\<close>

lemma draw_simps: "fst (draw k g) = map g [0..<k]" "snd (draw k g) = (\<lambda>i. g (i + k))"
  by (simp_all add: draw_def)

lemma length_reshape: "length (reshape r c zs) = r"
  by (simp add: reshape_def)

lemma ncols_reshape: "ncols (reshape r c zs) = (if r = 0 then 0 else c)"
  by (cases r) (simp_all add: reshape_def ncols_def upt_conv_Cons del: upt_Suc)

lemma length_mat_T: "length (mat_T M) = ncols M"
  by (simp add: mat_T_def)

lemma length_mat_add: "length (mat_add A B) = min (length A) (length B)"
  by (simp add: mat_add_def)

lemma standard_normal2_square:
  "0 \<le> n \<Longrightarrow> \<exists>M g'. standard_normal2 n n g = Inr (M, g') \<and> length M = nat n
      \<and> ncols M = (if nat n = 0 then 0 else nat n)"
  by (simp add: standard_normal2_def Let_def split_beta length_reshape ncols_reshape)

lemma ncols_map_map: "ncols (map (map f) M) = ncols M"
  by (cases M) (simp_all add: ncols_def)

lemma normal2_square:
  "0 \<le> n \<Longrightarrow> 0 \<le> sd \<Longrightarrow> \<exists>M g'. normal2 mean sd n n g = Inr (M, g') \<and> length M = nat n
      \<and> ncols M = (if nat n = 0 then 0 else nat n)"
  using standard_normal2_square [of n g]
  by (auto simp add: normal2_def ncols_map_map)

text \<open>
  For a non-negative size and a non-negative standard deviation, \<open>_generate_GOE_matrix\<close>
  called without a seed returns a matrix of \<open>size\<close> rows; a negative size raises.
\<close>

lemma generate_GOE_matrix_ok:
  assumes "0 \<le> n" and "0 \<le> or_default sd 1"
  shows "\<exists>M g'. generate_GOE_matrix np (Some n) mean sd None g = Inr (M, g') \<and> length M = nat n"
proof -
  let ?drawn = "if or_default mean 0 \<noteq> 0 \<or> or_default sd 1 \<noteq> 1
                then normal2 (or_default mean 0) (or_default sd 1) n n g
                else standard_normal2 n n g"
  obtain M g' where d: "?drawn = Inr (M, g')" and len: "length M = nat n"
    and nc: "ncols M = (if nat n = 0 then 0 else nat n)"
    using standard_normal2_square [OF assms(1), of g]
      normal2_square [OF assms, of "or_default mean 0" g]
    by (cases "or_default mean 0 \<noteq> 0 \<or> or_default sd 1 \<noteq> 1") auto
  have "generate_GOE_matrix np (Some n) mean sd None g
        = Inr (map (map (\<lambda>x. x / sqrt 2)) (mat_add M (mat_T M)), g')"
    using d by (simp add: generate_GOE_matrix_def reseed_def or_default_simps Let_def)
  moreover have "length (map (map (\<lambda>x. x / sqrt 2)) (mat_add M (mat_T M))) = nat n"
    using len nc by (simp add: length_mat_add length_mat_T)
  ultimately show ?thesis by blast
qed

lemma generate_GOE_matrix_negative:
  "n < 0 \<Longrightarrow> \<exists>e. generate_GOE_matrix np (Some n) mean sd None g = Inl e"
  by (simp add: generate_GOE_matrix_def reseed_def or_default_simps Let_def normal2_def
      standard_normal2_def)

lemma generate_eigs_goe_ok:
  assumes "0 \<le> n"
  shows "\<exists>M g'. generate_GOE_matrix np (Some n) (Some 0) (Some 1) None g = Inr (M, g')
           \<and> length M = nat n
           \<and> generate_eigs np n None None (Some ''goe'') logging g
               = Inr (eigvalsh np (RealMatrix M), g')"
proof -
  obtain M g' where "generate_GOE_matrix np (Some n) (Some 0) (Some 1) None g = Inr (M, g')"
    and "length M = nat n"
    using generate_GOE_matrix_ok [OF assms, of "Some 1" np "Some 0" g]
    by (auto simp add: or_default_simps)
  then show ?thesis
    by (simp add: generate_eigs_def or_default_simps)
qed

text \<open>The concrete environment: the eigenvalue routine's results, and a 1 x 1 matrix.\<close>

lemma numpy0_length: "\<forall>M. length (eigvalsh numpy0 M) = nrows M"
proof
  fix M show "length (eigvalsh numpy0 M) = nrows M"
    by (cases M) (simp_all add: numpy0_def)
qed


lemma zero_matrix_1:
  "generate_GOE_matrix np (Some 1) (Some 0) (Some 1) None zeros = Inr ([[0]], zeros)"
  by (simp add: generate_GOE_matrix_def reseed_def or_default_simps Let_def standard_normal2_def
      draw_def reshape_def zeros_def mat_add_def mat_T_def ncols_def)

section \<open>The argument check of fast\_poisson\_eigs\<close>

lemma fast_poisson_small:
  "or_default matsize 1000 < 100 \<Longrightarrow>
   fast_poisson_eigs np matsize sub g
     = generate_eigs np (or_default matsize 1000) None None (Some ''goe'') None g"
  by (simp add: fast_poisson_eigs_def Let_def)

lemma fast_poisson_submatrix_too_large:
  "100 \<le> or_default matsize 1000 \<Longrightarrow> or_default matsize 1000 \<le> or_default sub 100 \<Longrightarrow>
   fast_poisson_eigs np matsize sub g = Inl ValueError"
  by (simp add: fast_poisson_eigs_def Let_def)

text \<open>
  Claim C4 as stated fails. \<open>matsize = 1\<close> and \<open>sub_matsize = 1\<close> are positive with
  \<open>sub_matsize >= matsize\<close>, and the call returns a value, the one eigenvalue of the
  generated 1 x 1 matrix: \<open>matsize < 100\<close> is tested first and returns
  \<open>generate_eigs(matsize, kind="goe")\<close>.
\<close>

theorem fast_poisson_eigs_small_matsize_returns:
  "fast_poisson_eigs numpy0 (Some 1) (Some 1) zeros = Inr ([0], zeros)"
  by (simp add: fast_poisson_small or_default_simps generate_eigs_def zero_matrix_1 numpy0_def)

text \<open>
  Claim C4, amended. When \<open>matsize\<close> is at least 100 and \<open>sub_matsize >= matsize\<close>,
  \<open>fast_poisson_eigs\<close> raises ValueError and returns no value. When \<open>matsize\<close> is
  below 100 it returns what \<open>generate_eigs(matsize, kind="goe")\<close> returns, whatever
  \<open>sub_matsize\<close> is. An argument left out is 1000 for \<open>matsize\<close> and 100 for
  \<open>sub_matsize\<close>.
\<close>

theorem fast_poisson_eigs_argument_check:
  "(100 \<le> or_default matsize 1000 \<and> or_default matsize 1000 \<le> or_default sub_matsize 100
      \<longrightarrow> fast_poisson_eigs np matsize sub_matsize g = Inl ValueError)
   \<and> (or_default matsize 1000 < 100
      \<longrightarrow> fast_poisson_eigs np matsize sub_matsize g
            = generate_eigs np (or_default matsize 1000) None None (Some ''goe'') None g)"
  by (simp add: fast_poisson_small fast_poisson_submatrix_too_large)

text \<open>The theorem at \<open>(100, 200)\<close>, \<open>(100, 100)\<close> and \<open>(50, 100)\<close>.\<close>

theorem fast_poisson_eigs_argument_check_witness:
  "fast_poisson_eigs numpy0 (Some 100) (Some 200) zeros = Inl ValueError
   \<and> fast_poisson_eigs numpy0 (Some 100) (Some 100) zeros = Inl ValueError
   \<and> fast_poisson_eigs numpy0 (Some 50) (Some 100) zeros
       = generate_eigs numpy0 50 None None (Some ''goe'') None zeros"
  using fast_poisson_eigs_argument_check [of "Some 100" "Some 200" numpy0 zeros] fast_poisson_eigs_argument_check [of "Some 100" "Some 100" numpy0 zeros]
    fast_poisson_eigs_argument_check [of "Some 50" "Some 100" numpy0 zeros]
  by (simp add: or_default_simps)

section \<open>The Unfolded object\<close>

text \<open>
  Claim C10. For an object constructed from \<open>originals\<close> and \<open>unfolded\<close>, \<open>values\<close>
  and \<open>vals\<close> both return \<open>unfolded\<close>. \<open>plot_spectral_rigidity\<close> and
  \<open>plot_level_variance\<close> return as \<open>L\<close> and the statistic what the estimator returns
  when it is given that sequence, the arguments (or their defaults) and the generator's
  state; and two objects with the same \<open>unfolded\<close> and different \<open>originals\<close> give
  the same result.
\<close>

theorem Unfolded_values_feed_the_estimators:
  "values_prop (Unfolded_init os us) = us
   \<and> vals (Unfolded_init os us) = us
   \<and> (case plot_spectral_rigidity estimate render (Unfolded_init os us) min_L max_L gs ci title
             mode outfile ens sp g of
        ((L, delta, p), g') \<Rightarrow> ((L, delta), g'))
       = estimate us (or_default ci 50000) gs (or_default min_L 2) (or_default max_L 50)
           (or_default sp True) g
   \<and> (case plot_level_variance estimate render (Unfolded_init os us) min_L max_L ci gs title
             mode outfile ens sp g of
        ((L, sigma, p), g') \<Rightarrow> ((L, sigma), g'))
       = estimate us (or_default ci 50000) gs (or_default min_L 2) (or_default max_L 50)
           (or_default sp True) g
   \<and> plot_spectral_rigidity estimate render (Unfolded_init os us) min_L max_L gs ci title
         mode outfile ens sp g
       = plot_spectral_rigidity estimate render (Unfolded_init os' us) min_L max_L gs ci title
           mode outfile ens sp g
   \<and> plot_level_variance estimate render (Unfolded_init os us) min_L max_L ci gs title
         mode outfile ens sp g
       = plot_level_variance estimate render (Unfolded_init os' us) min_L max_L ci gs title
           mode outfile ens sp g"
  by (simp add: values_prop_def vals_def Unfolded_init_def plot_spectral_rigidity_def
      plot_level_variance_def Let_def split_beta)

text \<open>
  Claim C9 as stated fails. The constructor accepts three originals with one unfolded
  value, and the object's two sequences then differ in length.
\<close>

theorem Unfolded_init_accepts_unequal_lengths:
  "length (originals (Unfolded_init [1, 2, 3] [1])) \<noteq> length (priv_vals (Unfolded_init [1, 2, 3] [1]))"
  by (simp add: Unfolded_init_def)

section \<open>The closed form of goe\_unfolded\<close>

subsection \<open>A bound on the arctangent\<close>








subsection \<open>The function explicit\<close>

text \<open>
  \<open>explicit\<close> never reaches its \<open>raise\<close> and computes the specification's closed
  form; when \<open>N\<close> is positive it never divides zero by zero.
\<close>

lemma explicit_closed_form: "explicit N E = Inr (closed_form N E)"
  by (auto simp add: explicit_def closed_form_def power2_eq_square)

lemma explicit_no_nan:
  assumes "0 < N" and "sqrt (4 * real_of_int N - E * E) = 0" and "\<bar>E\<bar> \<le> 2 * sqrt (real_of_int N)"
  shows "E \<noteq> 0"
proof
  assume "E = 0"
  with assms(2) have "real_of_int N = 0" by simp
  with assms(1) show False by simp
qed





subsection \<open>The loop and the result\<close>

lemma unfold_loop_ok:
  "\<forall>i \<in> set idx. i < length eigs \<Longrightarrow>
   unfold_loop N eigs idx = Inr (map (\<lambda>i. real_of_int N * closed_form N (eigs ! i)) idx)"
  by (induction idx) (simp_all add: explicit_closed_form)

lemma goe_unfolded_ok:
  assumes "0 \<le> N" and "\<forall>M. length (eigvalsh np M) = nrows M"
  shows "\<exists>M g'. generate_GOE_matrix np (Some N) (Some 0) (Some 1) None g = Inr (M, g')
           \<and> length (eigvalsh np (RealMatrix M)) = nat N
           \<and> goe_unfolded np N g
               = Inr (Unfolded_init (eigvalsh np (RealMatrix M))
                        (map (\<lambda>i. real_of_int N * closed_form N (eigvalsh np (RealMatrix M) ! i))
                           [0..<nat N]), g')"
proof -
  obtain M g' where gen: "generate_GOE_matrix np (Some N) (Some 0) (Some 1) None g = Inr (M, g')"
    and len: "length M = nat N"
    using generate_GOE_matrix_ok [OF assms(1), of "Some 1" np "Some 0" g]
    by (auto simp add: or_default_simps)
  have elen: "length (eigvalsh np (RealMatrix M)) = nat N"
    using assms(2) len by simp
  then have "unfold_loop N (eigvalsh np (RealMatrix M)) [0..<nat N]
             = Inr (map (\<lambda>i. real_of_int N * closed_form N (eigvalsh np (RealMatrix M) ! i))
                      [0..<nat N])"
    by (intro unfold_loop_ok) simp
  then have "goe_unfolded np N g
             = Inr (Unfolded_init (eigvalsh np (RealMatrix M))
                      (map (\<lambda>i. real_of_int N * closed_form N (eigvalsh np (RealMatrix M) ! i))
                         [0..<nat N]), g')"
    using gen by (simp add: goe_unfolded_def Let_def)
  with gen elen show ?thesis by blast
qed

lemma goe_unfolded_negative:
  "N < 0 \<Longrightarrow> \<exists>e. goe_unfolded np N g = Inl e"
  using generate_GOE_matrix_negative [of N np "Some 0" "Some 1" g]
  by (auto simp add: goe_unfolded_def Let_def)

lemma goe_unfolded_lengths:
  assumes "\<forall>M. length (eigvalsh np M) = nrows M" and "goe_unfolded np N g = Inr (u, g')"
  shows "length (originals u) = nat N" and "length (priv_vals u) = nat N"
proof -
  have N: "0 \<le> N"
    using goe_unfolded_negative [of N np g] assms(2) by (cases "N < 0") auto
  from goe_unfolded_ok [OF N assms(1), of g] assms(2)
  show "length (originals u) = nat N" and "length (priv_vals u) = nat N"
    by (auto simp add: Unfolded_init_def)
qed



text \<open>
  Claim C9, amended. An Unfolded object holds the two sequences it was constructed with;
  the constructor does not compare their lengths, so the object's two sequences are
  equally long exactly when the arguments are. Every object \<open>goe_unfolded\<close> returns has
  two sequences of the same length (given that \<open>eigvalsh\<close> returns one eigenvalue per
  row).
\<close>

theorem Unfolded_lengths:
  "originals (Unfolded_init os us) = os
   \<and> priv_vals (Unfolded_init os us) = us
   \<and> (length (originals (Unfolded_init os us)) = length (priv_vals (Unfolded_init os us)))
       = (length os = length us)
   \<and> ((\<forall>M. length (eigvalsh np M) = nrows M) \<and> goe_unfolded np N g = Inr (u, g')
        \<longrightarrow> length (originals u) = length (priv_vals u))"
  using goe_unfolded_lengths [of np N g u g']
  by (auto simp add: Unfolded_init_def)

text \<open>The theorem at a pair of two-element sequences and at \<open>goe_unfolded(1)\<close>.\<close>

theorem Unfolded_lengths_witness:
  "length (originals (Unfolded_init [1, 2] [3, 4])) = length (priv_vals (Unfolded_init [1, 2] [3, 4]))
   \<and> (\<exists>u g'. goe_unfolded numpy0 1 zeros = Inr (u, g')
         \<and> length (originals u) = length (priv_vals u))"
proof -
  obtain M g' where "goe_unfolded numpy0 1 zeros
      = Inr (Unfolded_init (eigvalsh numpy0 (RealMatrix M))
               (map (\<lambda>i. real_of_int 1 * closed_form 1 (eigvalsh numpy0 (RealMatrix M) ! i))
                  [0..<nat 1]), g')"
    using goe_unfolded_ok [of 1 numpy0 zeros] numpy0_length by auto
  then show ?thesis
    using Unfolded_lengths [of "[1, 2]" "[3, 4]" numpy0 1 zeros _ g'] numpy0_length
    by (auto simp del: upt_Suc)
qed

section \<open>The blocks of fast\_poisson\_eigs\<close>

lemma py_int_quotient:
  "0 \<le> a \<Longrightarrow> 0 < b \<Longrightarrow> py_int (real_of_int a / real_of_int b) = a div b"
  by (simp add: py_int_def floor_divide_of_int_eq)

lemma assign_row_same: "length v = w \<Longrightarrow> assign_row w v = Inr v"
  by (simp add: assign_row_def)

lemma submats_loop_ok:
  assumes "0 \<le> sub" and "\<forall>M. length (eigvalsh np M) = nrows M"
  shows "\<exists>rows g'. submats_loop np sub k g = Inr (rows, g') \<and> length rows = k
           \<and> (\<forall>r \<in> set rows. \<exists>M. length M = nat sub \<and> r = eigvalsh np (RealMatrix M))"
proof (induction k arbitrary: g)
  case 0
  then show ?case by simp
next
  case (Suc k)
  obtain M g1 where gen: "generate_GOE_matrix np (Some sub) None None None g = Inr (M, g1)"
    and len: "length M = nat sub"
    using generate_GOE_matrix_ok [OF assms(1), of None np None g]
    by (auto simp add: or_default_simps)
  have row: "assign_row (nat sub) (eigvalsh np (RealMatrix M)) = Inr (eigvalsh np (RealMatrix M))"
    using assms(2) len by (intro assign_row_same) simp
  obtain rows g2 where rest: "submats_loop np sub k g1 = Inr (rows, g2)"
    and rlen: "length rows = k"
    and rall: "\<forall>r \<in> set rows. \<exists>M. length M = nat sub \<and> r = eigvalsh np (RealMatrix M)"
    using Suc.IH [of g1] by blast
  have "submats_loop np sub (Suc k) g = Inr (eigvalsh np (RealMatrix M) # rows, g2)"
    using gen row rest by simp
  moreover have "\<forall>r \<in> set (eigvalsh np (RealMatrix M) # rows).
                   \<exists>M. length M = nat sub \<and> r = eigvalsh np (RealMatrix M)"
    using rall len by auto
  ultimately show ?case using rlen by (intro exI [of _ "eigvalsh np (RealMatrix M) # rows"] exI [of _ g2]) simp
qed

lemma length_concat_uniform:
  "\<forall>r \<in> set rows. length r = w \<Longrightarrow> length (concat rows) = length rows * w"
  by (induction rows) simp_all

lemma blocks_and_remainder:
  assumes "0 \<le> m" and "0 < s"
  shows "nat (m div s) * nat s + nat (m mod s) = nat m"
proof -
  have d: "0 \<le> m div s" using assms by (simp add: pos_imp_zdiv_nonneg_iff)
  have r: "0 \<le> m mod s" using assms by simp
  have "int (nat (m div s) * nat s + nat (m mod s)) = (m div s) * s + m mod s"
    using d r assms by simp
  also have "\<dots> = m" by simp
  finally show ?thesis using assms by linarith
qed

text \<open>
  Claim C3. For \<open>matsize >= 100\<close> and \<open>1 <= sub_matsize < matsize\<close>,
  \<open>fast_poisson_eigs\<close> returns the sorted concatenation of \<open>matsize div sub_matsize\<close>
  blocks, each the \<open>sub_matsize\<close> eigenvalues of a generated matrix of that size, and
  of one remainder block, the \<open>matsize mod sub_matsize\<close> eigenvalues of a matrix of that
  size; the result has exactly \<open>matsize\<close> entries and is non-decreasing. When
  \<open>sub_matsize\<close> divides \<open>matsize\<close> the remainder is the result of \<open>eigvalsh\<close> on the
  0 x 0 matrix. The fact assumed about numpy's \<open>eigvalsh\<close> is that it returns as many
  values as the matrix has rows, the empty matrix included.
\<close>

theorem fast_poisson_eigs_blocks:
  assumes "100 \<le> matsize" and "1 \<le> sub_matsize" and "sub_matsize < matsize"
    and "\<forall>M. length (eigvalsh np M) = nrows M"
  shows "\<exists>blocks remainder g'.
     fast_poisson_eigs np (Some matsize) (Some sub_matsize) g
       = Inr (sort (concat blocks @ remainder), g')
     \<and> length blocks = nat (matsize div sub_matsize)
     \<and> (\<forall>b \<in> set blocks.
          length b = nat sub_matsize
          \<and> (\<exists>M. length M = nat sub_matsize \<and> b = eigvalsh np (RealMatrix M)))
     \<and> length remainder = nat (matsize mod sub_matsize)
     \<and> (\<exists>M. length M = nat (matsize mod sub_matsize) \<and> remainder = eigvalsh np (RealMatrix M))
     \<and> length (sort (concat blocks @ remainder)) = nat matsize
     \<and> sorted (sort (concat blocks @ remainder))"
proof -
  have m0: "0 \<le> matsize" and s0: "0 < sub_matsize" "0 \<le> sub_matsize" using assms by simp_all
  have q: "py_int (real_of_int matsize / real_of_int sub_matsize) = matsize div sub_matsize"
    using m0 s0 by (simp add: py_int_quotient)
  have q0: "0 \<le> matsize div sub_matsize" using m0 s0 by (simp add: pos_imp_zdiv_nonneg_iff)
  have l0: "0 \<le> matsize mod sub_matsize" using s0 by simp
  obtain blocks g1 where
    loop: "submats_loop np sub_matsize (nat (matsize div sub_matsize)) g = Inr (blocks, g1)"
    and blen: "length blocks = nat (matsize div sub_matsize)"
    and ball: "\<forall>r \<in> set blocks. \<exists>M. length M = nat sub_matsize \<and> r = eigvalsh np (RealMatrix M)"
    using submats_loop_ok [OF s0(2) assms(4), of "nat (matsize div sub_matsize)" g] by blast
  obtain M g2 where
    gen: "generate_GOE_matrix np (Some (matsize mod sub_matsize)) None None None g1 = Inr (M, g2)"
    and mlen: "length M = nat (matsize mod sub_matsize)"
    using generate_GOE_matrix_ok [OF l0, of None np None g1]
    by (auto simp add: or_default_simps)
  define remainder where "remainder = eigvalsh np (RealMatrix M)"
  have res: "fast_poisson_eigs np (Some matsize) (Some sub_matsize) g
             = Inr (sort (concat blocks @ remainder), g2)"
    using assms(1,2,3) q q0 loop gen
    by (simp add: fast_poisson_eigs_def or_default_simps Let_def remainder_def)
  have bl: "\<forall>b \<in> set blocks.
          length b = nat sub_matsize
          \<and> (\<exists>M. length M = nat sub_matsize \<and> b = eigvalsh np (RealMatrix M))"
    using ball assms(4) by fastforce
  have rl: "length remainder = nat (matsize mod sub_matsize)"
    using assms(4) mlen by (simp add: remainder_def)
  have rm: "\<exists>M. length M = nat (matsize mod sub_matsize) \<and> remainder = eigvalsh np (RealMatrix M)"
    using mlen remainder_def by blast
  have "length (concat blocks) = nat (matsize div sub_matsize) * nat sub_matsize"
    using length_concat_uniform [of blocks "nat sub_matsize"] bl blen by simp
  then have total: "length (sort (concat blocks @ remainder)) = nat matsize"
    using rl blocks_and_remainder [OF m0 s0(1)] by simp
  have srt: "sorted (sort (concat blocks @ remainder))" by simp
  from res blen bl rl rm total srt show ?thesis by blast
qed

text \<open>
  The theorem at \<open>(100, 30)\<close>, three blocks and a remainder of ten, and at
  \<open>(100, 50)\<close>, two blocks and an empty remainder.
\<close>

theorem fast_poisson_eigs_blocks_witness:
  "(\<exists>eigs g'. fast_poisson_eigs numpy0 (Some 100) (Some 30) zeros = Inr (eigs, g')
       \<and> length eigs = 100 \<and> sorted eigs)
   \<and> (\<exists>eigs g'. fast_poisson_eigs numpy0 (Some 100) (Some 50) zeros = Inr (eigs, g')
       \<and> length eigs = 100 \<and> sorted eigs)"
proof -
  have a: "(100::int) \<le> 100" "(1::int) \<le> 30" "(30::int) < 100" "(1::int) \<le> 50" "(50::int) < 100"
    by simp_all
  show ?thesis
    using fast_poisson_eigs_blocks [OF a(1) a(2) a(3) numpy0_length, of zeros]
      fast_poisson_eigs_blocks [OF a(1) a(4) a(5) numpy0_length, of zeros]
    by (auto simp del: sorted_sort length_sort)
qed

end
